theory Spec2Isabelle
  imports Complex_Main
begin

section \<open>Go runtime values used by the consumer\<close>

text \<open>
  Go errors. The sentinels \<open>context.Canceled\<close>, \<open>context.DeadlineExceeded\<close> and
  \<open>gorm.ErrRecordNotFound\<close> are compared by identity in the source, so each is a
  constructor of its own. \<open>New s\<close> is \<open>fmt.Errorf(s)\<close> without a wrapped error,
  \<open>Wrap s e\<close> is \<open>fmt.Errorf(s ++ ": %w", e)\<close>. \<open>DBError code\<close> is an error
  reported by the database driver, with its SQLSTATE code.
\<close>

datatype error =
    Canceled
  | DeadlineExceeded
  | ErrRecordNotFound
  | DBError string
  | New string
  | Wrap string error

fun errors_Is :: "error \<Rightarrow> error \<Rightarrow> bool" where
  "errors_Is (Wrap s e) target = (Wrap s e = target \<or> errors_Is e target)"
| "errors_Is e target = (e = target)"

text \<open>SQLSTATE 23505, the code PostgreSQL reports for a unique-constraint violation.\<close>

definition unique_violation :: error where
  "unique_violation = DBError ''23505''"

text \<open>
  A Go call either returns or panics. A panic is not an error value: nothing in
  this program recovers from one.
\<close>

datatype 'a outcome = Panicked string | Returned 'a

definition bindO :: "'a outcome \<Rightarrow> ('a \<Rightarrow> 'b outcome) \<Rightarrow> 'b outcome" where
  "bindO x f = (case x of Panicked p \<Rightarrow> Panicked p | Returned a \<Rightarrow> f a)"

text \<open>
  The dynamic values \<open>encoding/json\<close> stores in an \<open>interface{}\<close>: nil, bool,
  float64, string, \<open>[]interface{}\<close> and \<open>map[string]interface{}\<close>.

  \<open>float64\<close> is the type parameter \<open>'f\<close>: the float64 values a JSON number
  decodes to (there is no NaN and no infinity among them), taken up to Go's
  \<open>==\<close>, so that 0 and -0 are one value. Its IEEE-754 operations are the class
  operations of \<open>'f\<close>: \<open>x / y\<close> is the float64 quotient, rounded as float64
  division rounds, \<open>x < y\<close> and \<open>x = y\<close> are the float64 comparisons. No
  property of these operations is assumed. The conversion \<open>int(x)\<close> is passed to
  the functions that use it, as \<open>toInt\<close>.
\<close>

datatype 'f iface =
    INil
  | IBool bool
  | IFloat 'f
  | IString string
  | ISlice "'f iface list"
  | IMap "(string \<times> 'f iface) list"

fun typeName :: "'f iface \<Rightarrow> string" where
  "typeName INil = ''nil''"
| "typeName (IBool b) = ''bool''"
| "typeName (IFloat x) = ''float64''"
| "typeName (IString s) = ''string''"
| "typeName (ISlice xs) = ''[]interface {}''"
| "typeName (IMap kvs) = ''map[string]interface {}''"

text \<open>The type assertion \<open>v.(float64)\<close> in its one-result form: it panics on any other type.\<close>

fun assertFloat64 :: "'f iface \<Rightarrow> 'f outcome" where
  "assertFloat64 (IFloat x) = Returned x"
| "assertFloat64 v =
     Panicked (''interface conversion: interface {} is '' @ typeName v @ '', not float64'')"

fun isFloat64 :: "'f iface \<Rightarrow> bool" where
  "isFloat64 (IFloat x) = True"
| "isFloat64 v = False"

text \<open>\<open>%d\<close> of a length.\<close>

fun showNat :: "nat \<Rightarrow> string" where
  "showNat n =
     (if n < 10 then [char_of (48 + n)]
      else showNat (n div 10) @ [char_of (48 + n mod 10)])"

text \<open>
  \<open>time.Time\<close>. \<open>Date y mo d h mi s ns\<close> is the value of
  \<open>time.Date(y, time.Month(mo), d, h, mi, s, ns, time.UTC)\<close>, \<open>ZeroTime\<close> is
  \<open>time.Time{}\<close>, \<open>WallClock n\<close> is the \<open>n\<close>-th reading of \<open>time.Now().UTC()\<close>,
  \<open>DatabaseNow n\<close> is the value of \<open>now()\<close> in the database at the insert into
  a table of \<open>n\<close> rows.
\<close>

datatype Time =
    ZeroTime
  | Date int int int int int int int
  | WallClock nat
  | DatabaseNow nat

text \<open>Levels of the logger, and one logged entry (the key/value arguments are left out).\<close>

datatype level = DebugL | InfoL | WarnL | ErrorL

section \<open>internal/domain/entities: Transaction\<close>

record 'f Transaction =
  ID :: string
  UserID :: int
  AccountID :: string
  TransactionID :: string
  TransactionType :: string
  TransactionStatus :: string
  Amount :: 'f
  BalanceBefore :: 'f
  BalanceAfter :: 'f
  Currency :: string
  Description :: "string option"
  ExternalReference :: "string option"
  PaymentMethod :: "string option"
  Metadata :: "string option"
  IsAccessibleFromExternal :: bool
  CreatedAt :: Time
  UpdatedAt :: Time

definition TransactionStatusFailed :: string where
  "TransactionStatusFailed = ''FAILED''"

definition IsValid :: "('f::{zero,ord}) Transaction \<Rightarrow> bool" where
  "IsValid t \<longleftrightarrow>
     UserID t > 0 \<and>
     AccountID t \<noteq> '''' \<and>
     TransactionID t \<noteq> '''' \<and>
     TransactionType t \<noteq> '''' \<and>
     Amount t > 0"

section \<open>internal/deliveries: TransactionHandler\<close>

text \<open>
  \<open>KafkaTransactionMessage\<close>; its fields carry the prefix \<open>msg\<close> to keep them
  apart from those of \<open>Transaction\<close>.
\<close>

record 'f KafkaTransactionMessage =
  msgID :: string
  msgUserID :: int
  msgAccountID :: string
  msgTransactionID :: string
  msgTransactionType :: string
  msgTransactionStatus :: string
  msgAmount :: 'f
  msgBalanceBefore :: 'f
  msgBalanceAfter :: 'f
  msgCurrency :: string
  msgDescription :: string
  msgExternalReference :: "string option"
  msgPaymentMethod :: string
  msgMetadata :: "string option"
  msgIsAccessibleFromExternal :: bool
  msgCreatedAt :: "'f iface list"
  msgUpdatedAt :: "'f iface list"

text \<open>
  \<open>parseTimestamp\<close>: the length check returns an error; the six (or seven) type
  assertions are evaluated in order and the first one that fails panics.
\<close>

definition parseTimestamp ::
  "('f \<Rightarrow> int) \<Rightarrow> 'f iface list \<Rightarrow> (Time \<times> error option) outcome" where
  "parseTimestamp toInt timestampArray =
     (if length timestampArray < 6 then
        Returned (ZeroTime,
          Some (New (''invalid timestamp array length: '' @ showNat (length timestampArray))))
      else
        bindO (assertFloat64 (timestampArray ! 0)) (\<lambda>year.
        bindO (assertFloat64 (timestampArray ! 1)) (\<lambda>month.
        bindO (assertFloat64 (timestampArray ! 2)) (\<lambda>day.
        bindO (assertFloat64 (timestampArray ! 3)) (\<lambda>hour.
        bindO (assertFloat64 (timestampArray ! 4)) (\<lambda>minute.
        bindO (assertFloat64 (timestampArray ! 5)) (\<lambda>second.
        bindO (if length timestampArray > 6
               then bindO (assertFloat64 (timestampArray ! 6)) (\<lambda>n. Returned (toInt n))
               else Returned 0) (\<lambda>nanosecond.
        Returned (Date (toInt year) (toInt month) (toInt day)
                       (toInt hour) (toInt minute) (toInt second) nanosecond, None)))))))))"

text \<open>
  A timestamp array on which \<open>parseTimestamp\<close> reaches no failing type
  assertion: it is too short to be read at all, or its first seven members (as
  many as there are) are all \<open>float64\<close>.
\<close>

definition assertionsHold :: "'f iface list \<Rightarrow> bool" where
  "assertionsHold timestampArray \<longleftrightarrow>
     length timestampArray < 6 \<or> list_all isFloat64 (take 7 timestampArray)"

text \<open>
  \<open>kafkaMessageToEntity\<close>. \<open>tick\<close> counts the readings of the wall clock taken
  so far; the function returns the record, its (always nil) error, the warnings
  it logged and the new count.
\<close>

definition kafkaMessageToEntity ::
  "('f \<Rightarrow> int) \<Rightarrow> nat \<Rightarrow> ('f::{inverse,numeral}) KafkaTransactionMessage \<Rightarrow>
     ('f Transaction \<times> error option \<times> (level \<times> string) list \<times> nat) outcome" where
  "kafkaMessageToEntity toInt tick msg =
     bindO (parseTimestamp toInt (msgCreatedAt msg)) (\<lambda>(parsedC, errC).
       let createdAt = (if errC \<noteq> None then WallClock tick else parsedC);
           logC = (if errC \<noteq> None
                   then [(WarnL, ''Failed to parse createdAt, using current time'')] else []);
           tickC = (if errC \<noteq> None then Suc tick else tick)
       in
     bindO (parseTimestamp toInt (msgUpdatedAt msg)) (\<lambda>(parsedU, errU).
       let updatedAt = (if errU \<noteq> None then WallClock tickC else parsedU);
           logU = (if errU \<noteq> None
                   then [(WarnL, ''Failed to parse updatedAt, using current time'')] else []);
           tickU = (if errU \<noteq> None then Suc tickC else tickC);
           amount = msgAmount msg / 100;
           transaction = \<lparr>
             ID = msgID msg,
             UserID = msgUserID msg,
             AccountID = msgAccountID msg,
             TransactionID = msgTransactionID msg,
             TransactionType = msgTransactionType msg,
             TransactionStatus = msgTransactionStatus msg,
             Amount = amount,
             BalanceBefore = msgBalanceBefore msg,
             BalanceAfter = msgBalanceAfter msg,
             Currency = msgCurrency msg,
             Description = None,
             ExternalReference = msgExternalReference msg,
             PaymentMethod = None,
             Metadata = msgMetadata msg,
             IsAccessibleFromExternal = msgIsAccessibleFromExternal msg,
             CreatedAt = createdAt,
             UpdatedAt = updatedAt \<rparr>;
           transaction = (if msgDescription msg \<noteq> ''''
                          then transaction\<lparr>Description := Some (msgDescription msg)\<rparr>
                          else transaction);
           transaction = (if msgPaymentMethod msg \<noteq> ''''
                          then transaction\<lparr>PaymentMethod := Some (msgPaymentMethod msg)\<rparr>
                          else transaction)
       in Returned (transaction, None, logC @ logU, tickU)))"

section \<open>internal/domain/repositories: the TransactionRepository interface\<close>

text \<open>
  The interface the use case is written against. \<open>'s\<close> is the state behind an
  implementation. \<open>Create\<close> receives a pointer and may write through it, so it
  returns the record as it is after the call.
\<close>

record ('s, 'f) TransactionRepository =
  Create :: "'f Transaction \<Rightarrow> 's \<Rightarrow> (error option \<times> 'f Transaction) \<times> 's"
  GetByTransactionID :: "string \<Rightarrow> 's \<Rightarrow> ('f Transaction option \<times> error option) \<times> 's"
  Exists :: "string \<Rightarrow> 's \<Rightarrow> (bool \<times> error option) \<times> 's"

section \<open>internal/usecases: ProcessTransaction\<close>

text \<open>
  What \<open>ProcessTransaction\<close> does besides returning: the entries it logs and the
  calls it makes on the repository, in order.
\<close>

datatype 'f uc_event =
    Logged level string
  | ExistsCalled string
  | CreateCalled "'f Transaction"

definition balanceWarning :: "'f Transaction \<Rightarrow> 'f uc_event list" where
  "balanceWarning transaction =
     (if TransactionStatus transaction = TransactionStatusFailed then
        (if BalanceBefore transaction \<noteq> BalanceAfter transaction
         then [Logged WarnL ''Failed transaction has balance change'']
         else [])
      else [])"

definition ProcessTransaction ::
  "('s, 'f::{zero,ord}) TransactionRepository \<Rightarrow> 'f Transaction \<Rightarrow> 's \<Rightarrow>
     (error option \<times> 'f Transaction \<times> 'f uc_event list) \<times> 's" where
  "ProcessTransaction repo transaction s =
     (if \<not> IsValid transaction then
        ((Some (New ''invalid transaction data''), transaction, []), s)
      else
        (case Exists repo (TransactionID transaction) s of ((exists, err), s1) \<Rightarrow>
          (case err of
             Some e \<Rightarrow>
               ((Some (Wrap ''failed to check transaction existence'' e), transaction,
                 [ExistsCalled (TransactionID transaction),
                  Logged ErrorL ''Failed to check transaction existence'']), s1)
           | None \<Rightarrow>
               if exists then
                 ((None, transaction,
                   [ExistsCalled (TransactionID transaction),
                    Logged InfoL ''Transaction already exists, skipping'']), s1)
               else
                 (case Create repo transaction s1 of ((cerr, transaction'), s2) \<Rightarrow>
                   (case cerr of
                      Some e \<Rightarrow>
                        ((Some (Wrap ''failed to create transaction'' e), transaction',
                          [ExistsCalled (TransactionID transaction)] @
                          balanceWarning transaction @
                          [CreateCalled transaction,
                           Logged ErrorL ''Failed to create transaction'']), s2)
                    | None \<Rightarrow>
                        ((None, transaction',
                          [ExistsCalled (TransactionID transaction)] @
                          balanceWarning transaction @
                          [CreateCalled transaction,
                           Logged InfoL ''Transaction processed successfully'']), s2))))))"

text \<open>
  The four outcomes of the specification, read off what \<open>ProcessTransaction\<close>
  returns and does: the validation error is Rejected, any other error is Failed,
  a nil error after a call of \<open>Create\<close> is Written, a nil error without one is
  Skipped.
\<close>

datatype Outcome = Written | Skipped | Rejected | Failed

fun isCreateCalled :: "'f uc_event \<Rightarrow> bool" where
  "isCreateCalled (CreateCalled t) = True"
| "isCreateCalled e = False"

fun isExistsCalled :: "'f uc_event \<Rightarrow> bool" where
  "isExistsCalled (ExistsCalled k) = True"
| "isExistsCalled e = False"

fun isWarning :: "'f uc_event \<Rightarrow> bool" where
  "isWarning (Logged l m) = (l = WarnL)"
| "isWarning e = False"

definition outcomeOf :: "error option \<Rightarrow> 'f uc_event list \<Rightarrow> Outcome" where
  "outcomeOf err events =
     (case err of
        Some e \<Rightarrow> if e = New ''invalid transaction data'' then Rejected else Failed
      | None \<Rightarrow> if list_ex isCreateCalled events then Written else Skipped)"

text \<open>
  The use case with the balance check of lines 44 to 48 taken out, to compare
  \<open>ProcessTransaction\<close> with.
\<close>

definition ProcessTransaction_unchecked ::
  "('s, 'f::{zero,ord}) TransactionRepository \<Rightarrow> 'f Transaction \<Rightarrow> 's \<Rightarrow>
     (error option \<times> 'f Transaction \<times> 'f uc_event list) \<times> 's" where
  "ProcessTransaction_unchecked repo transaction s =
     (if \<not> IsValid transaction then
        ((Some (New ''invalid transaction data''), transaction, []), s)
      else
        (case Exists repo (TransactionID transaction) s of ((exists, err), s1) \<Rightarrow>
          (case err of
             Some e \<Rightarrow>
               ((Some (Wrap ''failed to check transaction existence'' e), transaction,
                 [ExistsCalled (TransactionID transaction),
                  Logged ErrorL ''Failed to check transaction existence'']), s1)
           | None \<Rightarrow>
               if exists then
                 ((None, transaction,
                   [ExistsCalled (TransactionID transaction),
                    Logged InfoL ''Transaction already exists, skipping'']), s1)
               else
                 (case Create repo transaction s1 of ((cerr, transaction'), s2) \<Rightarrow>
                   (case cerr of
                      Some e \<Rightarrow>
                        ((Some (Wrap ''failed to create transaction'' e), transaction',
                          [ExistsCalled (TransactionID transaction),
                           CreateCalled transaction,
                           Logged ErrorL ''Failed to create transaction'']), s2)
                    | None \<Rightarrow>
                        ((None, transaction',
                          [ExistsCalled (TransactionID transaction),
                           CreateCalled transaction,
                           Logged InfoL ''Transaction processed successfully'']), s2))))))"

section \<open>internal/infrastructures/database/postgres: transactionRepository\<close>

text \<open>
  \<open>TransactionModel\<close>; its fields carry the prefix \<open>model\<close>.
\<close>

record 'f TransactionModel =
  modelID :: string
  modelUserID :: int
  modelAccountID :: string
  modelTransactionID :: string
  modelTransactionType :: string
  modelTransactionStatus :: string
  modelAmount :: 'f
  modelBalanceBefore :: 'f
  modelBalanceAfter :: 'f
  modelCurrency :: string
  modelDescription :: "string option"
  modelExternalReference :: "string option"
  modelPaymentMethod :: "string option"
  modelMetadata :: "string option"
  modelIsAccessibleFromExternal :: bool
  modelCreatedAt :: Time
  modelUpdatedAt :: Time

definition entityToModel :: "'f Transaction \<Rightarrow> 'f TransactionModel" where
  "entityToModel transaction =
     (let model = \<lparr>
        modelID = ID transaction,
        modelUserID = UserID transaction,
        modelAccountID = AccountID transaction,
        modelTransactionID = TransactionID transaction,
        modelTransactionType = TransactionType transaction,
        modelTransactionStatus = TransactionStatus transaction,
        modelAmount = Amount transaction,
        modelBalanceBefore = BalanceBefore transaction,
        modelBalanceAfter = BalanceAfter transaction,
        modelCurrency = Currency transaction,
        modelDescription = Description transaction,
        modelExternalReference = ExternalReference transaction,
        modelPaymentMethod = None,
        modelMetadata = Metadata transaction,
        modelIsAccessibleFromExternal = IsAccessibleFromExternal transaction,
        modelCreatedAt = CreatedAt transaction,
        modelUpdatedAt = UpdatedAt transaction \<rparr>
      in case PaymentMethod transaction of
           Some paymentMethod \<Rightarrow> model\<lparr>modelPaymentMethod := Some paymentMethod\<rparr>
         | None \<Rightarrow> model)"

definition modelToEntity :: "'f TransactionModel \<Rightarrow> 'f Transaction" where
  "modelToEntity model =
     (let transaction = \<lparr>
        ID = modelID model,
        UserID = modelUserID model,
        AccountID = modelAccountID model,
        TransactionID = modelTransactionID model,
        TransactionType = modelTransactionType model,
        TransactionStatus = modelTransactionStatus model,
        Amount = modelAmount model,
        BalanceBefore = modelBalanceBefore model,
        BalanceAfter = modelBalanceAfter model,
        Currency = modelCurrency model,
        Description = modelDescription model,
        ExternalReference = modelExternalReference model,
        PaymentMethod = None,
        Metadata = modelMetadata model,
        IsAccessibleFromExternal = modelIsAccessibleFromExternal model,
        CreatedAt = modelCreatedAt model,
        UpdatedAt = modelUpdatedAt model \<rparr>
      in case modelPaymentMethod model of
           Some paymentMethod \<Rightarrow> transaction\<lparr>PaymentMethod := Some paymentMethod\<rparr>
         | None \<Rightarrow> transaction)"

text \<open>
  The database behind \<open>*gorm.DB\<close> is outside the repository. It is the table
  \<open>historical_transactions\<close> with the two constraints the gorm tags of
  \<open>TransactionModel\<close> declare (primary key \<open>ID\<close> with default
  \<open>gen_random_uuid()\<close>, unique index on \<open>TransactionID\<close>), and a schedule of
  faults: every call takes the head of \<open>pending\<close>, and \<open>Some e\<close> makes that call
  fail with \<open>e\<close> and leave the table alone. An empty schedule holds no fault.
  \<open>rows\<close> keeps each row as it is sent to the table. What the column types do
  to a value (\<open>decimal(15,2)\<close>, the lengths of the \<open>varchar\<close> columns, the enum
  types) is not modelled; a row refused for such a reason is a fault of the
  schedule.
\<close>

record 'f DB =
  rows :: "'f TransactionModel list"
  pending :: "error option list"

definition nextFault :: "'f DB \<Rightarrow> error option \<times> 'f DB" where
  "nextFault db =
     (case pending db of
        [] \<Rightarrow> (None, db)
      | f # fs \<Rightarrow> (f, db\<lparr>pending := fs\<rparr>))"

text \<open>
  \<open>gen_random_uuid()\<close> yields an identifier no stored row has; which one does not
  matter here, the model takes a string longer than every stored \<open>ID\<close>.
\<close>

definition gen_random_uuid :: "'f TransactionModel list \<Rightarrow> string" where
  "gen_random_uuid table =
     replicate (Suc (fold max (map (\<lambda>m. length (modelID m)) table) 0)) (CHR ''0'')"

text \<open>
  The \<open>default:\<close> tags of \<open>TransactionModel\<close>. gorm does not send the zero
  value of a field that has one. Where the default is a literal (\<open>IDR\<close> for
  \<open>Currency\<close>, \<open>true\<close> for \<open>IsAccessibleFromExternal\<close>) gorm puts it into the model
  before the insert, so an empty currency is stored as IDR and a false flag as
  true.
\<close>

definition gormDefaults :: "'f TransactionModel \<Rightarrow> 'f TransactionModel" where
  "gormDefaults model = model\<lparr>
     modelCurrency := (if modelCurrency model = '''' then ''IDR'' else modelCurrency model),
     modelIsAccessibleFromExternal :=
       (if modelIsAccessibleFromExternal model = False then True
        else modelIsAccessibleFromExternal model) \<rparr>"

text \<open>
  Where the default is an expression of the database (\<open>gen_random_uuid()\<close> for
  \<open>ID\<close>, \<open>now()\<close> for \<open>CreatedAt\<close> and \<open>UpdatedAt\<close>) gorm leaves a zero field
  out of the insert, the database fills the column, and gorm reads it back into
  the model. \<open>isZero\<close> is the test by which gorm takes a \<open>time.Time\<close> for zero;
  it belongs to the library and is passed in.
\<close>

definition databaseDefaults ::
  "(Time \<Rightarrow> bool) \<Rightarrow> 'f TransactionModel list \<Rightarrow> 'f TransactionModel \<Rightarrow>
     'f TransactionModel" where
  "databaseDefaults isZero table model = model\<lparr>
     modelID := (if modelID model = '''' then gen_random_uuid table else modelID model),
     modelCreatedAt :=
       (if isZero (modelCreatedAt model) then DatabaseNow (length table)
        else modelCreatedAt model),
     modelUpdatedAt :=
       (if isZero (modelUpdatedAt model) then DatabaseNow (length table)
        else modelUpdatedAt model) \<rparr>"

text \<open>
  \<open>db.Create(model)\<close>: the literal defaults are put into the model, the row is
  sent, the database fills its own defaults, and the row as stored is read back
  into the model; a row that repeats a stored \<open>ID\<close> or \<open>TransactionID\<close> is
  refused with a unique violation.
\<close>

definition gorm_Create ::
  "(Time \<Rightarrow> bool) \<Rightarrow> 'f TransactionModel \<Rightarrow> 'f DB \<Rightarrow>
     (error option \<times> 'f TransactionModel) \<times> 'f DB" where
  "gorm_Create isZero model db =
     (let model1 = gormDefaults model
      in case nextFault db of
           (Some e, db1) \<Rightarrow> ((Some e, model1), db1)
         | (None, db1) \<Rightarrow>
             (let row = databaseDefaults isZero (rows db1) model1
              in if list_ex (\<lambda>m. modelID m = modelID row \<or>
                                  modelTransactionID m = modelTransactionID row) (rows db1)
                 then ((Some unique_violation, model1), db1)
                 else ((None, row), db1\<lparr>rows := rows db1 @ [row]\<rparr>)))"

text \<open>\<open>db.Model(..).Where("transaction_id = ?", id).Count(&count)\<close>.\<close>

definition gorm_Count :: "string \<Rightarrow> 'f DB \<Rightarrow> (int \<times> error option) \<times> 'f DB" where
  "gorm_Count transactionID db =
     (case nextFault db of
        (Some e, db1) \<Rightarrow> ((0, Some e), db1)
      | (None, db1) \<Rightarrow>
          ((int (length (filter (\<lambda>m. modelTransactionID m = transactionID) (rows db1))), None),
           db1))"

text \<open>\<open>db.Where("transaction_id = ?", id).First(&model)\<close>.\<close>

definition gorm_First ::
  "string \<Rightarrow> 'f DB \<Rightarrow> ('f TransactionModel option \<times> error option) \<times> 'f DB" where
  "gorm_First transactionID db =
     (case nextFault db of
        (Some e, db1) \<Rightarrow> ((None, Some e), db1)
      | (None, db1) \<Rightarrow>
          (case filter (\<lambda>m. modelTransactionID m = transactionID) (rows db1) of
             [] \<Rightarrow> ((None, Some ErrRecordNotFound), db1)
           | m # ms \<Rightarrow> ((Some m, None), db1)))"

definition transactionRepository_Create ::
  "(Time \<Rightarrow> bool) \<Rightarrow> 'f Transaction \<Rightarrow> 'f DB \<Rightarrow>
     (error option \<times> 'f Transaction) \<times> 'f DB" where
  "transactionRepository_Create isZero transaction db =
     (let model = entityToModel transaction
      in case gorm_Create isZero model db of
           ((Some err, model'), db') \<Rightarrow>
             ((Some (Wrap ''failed to create transaction'' err), transaction), db')
         | ((None, model'), db') \<Rightarrow>
             ((None, transaction\<lparr>ID := modelID model'\<rparr>), db'))"

definition transactionRepository_GetByTransactionID ::
  "string \<Rightarrow> 'f DB \<Rightarrow> ('f Transaction option \<times> error option) \<times> 'f DB" where
  "transactionRepository_GetByTransactionID transactionID db =
     (case gorm_First transactionID db of
        ((found, Some err), db') \<Rightarrow>
          if err = ErrRecordNotFound then ((None, None), db')
          else ((None, Some (Wrap ''failed to get transaction'' err)), db')
      | ((found, None), db') \<Rightarrow> ((map_option modelToEntity found, None), db'))"

definition transactionRepository_Exists ::
  "string \<Rightarrow> 'f DB \<Rightarrow> (bool \<times> error option) \<times> 'f DB" where
  "transactionRepository_Exists transactionID db =
     (case gorm_Count transactionID db of
        ((count, Some err), db') \<Rightarrow>
          ((False, Some (Wrap ''failed to check transaction existence'' err)), db')
      | ((count, None), db') \<Rightarrow> ((count > 0, None), db'))"

text \<open>
  \<open>NewTransactionRepository\<close>: the three methods as a value of the interface,
  over the library's test for a zero time.
\<close>

definition NewTransactionRepository :: "(Time \<Rightarrow> bool) \<Rightarrow> ('f DB, 'f) TransactionRepository" where
  "NewTransactionRepository isZero = \<lparr>
     Create = transactionRepository_Create isZero,
     GetByTransactionID = transactionRepository_GetByTransactionID,
     Exists = transactionRepository_Exists \<rparr>"

section \<open>internal/infrastructures/kafka/consumer: Consume\<close>

text \<open>
  What one turn of the loop meets. \<open>ctxErr\<close> is \<open>ctx.Err()\<close> as the
  \<open>select\<close> finds it: \<open>None\<close> while the context is live (the \<open>default\<close> branch
  runs), \<open>Some e\<close> once \<open>ctx.Done()\<close> is closed. \<open>fetch\<close> is what
  \<open>FetchMessage\<close> returns in that turn, \<open>commit\<close> what \<open>CommitMessages\<close> returns.
\<close>

record 'm turn =
  ctxErr :: "error option"
  fetch :: "error + 'm"
  commit :: "error option"

datatype 'm consumer_event =
    ConsumerLog level string
  | FetchCalled
  | Fetched 'm
  | Slept
  | HandlerCalled 'm
  | HandlerReturned 'm "error option"
  | CommitCalled 'm

text \<open>
  The loop over the turns the environment supplies. The result is \<open>None\<close> when
  the turns run out with the loop still going (\<open>FetchMessage\<close> blocks), and
  otherwise how \<open>Consume\<close> ended: \<open>Returned err\<close>, or \<open>Panicked\<close> when the handler
  panicked, which \<open>Consume\<close> does not recover.
\<close>

fun Consume_loop ::
  "('m \<Rightarrow> 's \<Rightarrow> error option outcome \<times> 's) \<Rightarrow> 'm turn list \<Rightarrow> 's \<Rightarrow>
     (error option outcome option \<times> 'm consumer_event list) \<times> 's" where
  "Consume_loop handler [] s = ((None, []), s)"
| "Consume_loop handler (t # ts) s =
     (case ctxErr t of
        Some e \<Rightarrow>
          ((Some (Returned (Some e)),
            [ConsumerLog InfoL ''Consumer context cancelled, stopping...'']), s)
      | None \<Rightarrow>
          (case fetch t of
             Inl err \<Rightarrow>
               if errors_Is err Canceled then ((Some (Returned None), [FetchCalled]), s)
               else
                 (case Consume_loop handler ts s of ((r, evs), s') \<Rightarrow>
                   ((r, [FetchCalled, ConsumerLog ErrorL ''Failed to fetch message'', Slept]
                        @ evs), s'))
           | Inr message \<Rightarrow>
               (case handler message s of
                  (Panicked p, s1) \<Rightarrow>
                    ((Some (Panicked p), [FetchCalled, Fetched message, HandlerCalled message]),
                     s1)
                | (Returned herr, s1) \<Rightarrow>
                    (case Consume_loop handler ts s1 of ((r, evs), s') \<Rightarrow>
                      ((r, [FetchCalled, Fetched message, HandlerCalled message,
                            HandlerReturned message herr]
                           @ (if herr \<noteq> None
                              then [ConsumerLog ErrorL ''Failed to process message''] else [])
                           @ [CommitCalled message]
                           @ (if commit t \<noteq> None
                              then [ConsumerLog ErrorL ''Failed to commit message''] else [])
                           @ evs), s')))))"

text \<open>
  The events of a run that concern a message, the messages whose handler
  returned (with what it returned), and the round the loop makes for such a
  message.
\<close>

fun isMessageEvent :: "'m consumer_event \<Rightarrow> bool" where
  "isMessageEvent (Fetched m) = True"
| "isMessageEvent (HandlerCalled m) = True"
| "isMessageEvent (HandlerReturned m e) = True"
| "isMessageEvent (CommitCalled m) = True"
| "isMessageEvent ev = False"

fun handled :: "'m consumer_event list \<Rightarrow> ('m \<times> error option) list" where
  "handled [] = []"
| "handled (HandlerReturned m e # evs) = (m, e) # handled evs"
| "handled (ev # evs) = handled evs"

fun fetched :: "'m consumer_event list \<Rightarrow> 'm list" where
  "fetched [] = []"
| "fetched (Fetched m # evs) = m # fetched evs"
| "fetched (ev # evs) = fetched evs"

fun committed :: "'m consumer_event list \<Rightarrow> 'm list" where
  "committed [] = []"
| "committed (CommitCalled m # evs) = m # committed evs"
| "committed (ev # evs) = committed evs"

definition messageRound :: "'m \<times> error option \<Rightarrow> 'm consumer_event list" where
  "messageRound me = [Fetched (fst me), HandlerCalled (fst me),
               HandlerReturned (fst me) (snd me), CommitCalled (fst me)]"

definition Consume ::
  "('m \<Rightarrow> 's \<Rightarrow> error option outcome \<times> 's) \<Rightarrow> 'm turn list \<Rightarrow> 's \<Rightarrow>
     (error option outcome option \<times> 'm consumer_event list) \<times> 's" where
  "Consume handler turns s =
     (case Consume_loop handler turns s of ((r, evs), s') \<Rightarrow>
        ((r, ConsumerLog InfoL ''Starting Kafka consumer'' # evs), s'))"

section \<open>internal/deliveries: HandleMessage\<close>

text \<open>
  \<open>json.Unmarshal\<close> into a \<open>KafkaTransactionMessage\<close> is the parameter
  \<open>unmarshal\<close>. The state is the count of clock readings and the state behind the
  repository; what the handler and the use case log is not kept here. A panic
  inside the conversion leaves \<open>HandleMessage\<close> as a panic.
\<close>

definition HandleMessage ::
  "(string \<Rightarrow> error + 'f KafkaTransactionMessage) \<Rightarrow> ('f \<Rightarrow> int) \<Rightarrow>
   ('s, 'f::{inverse,numeral,zero,ord}) TransactionRepository \<Rightarrow> string \<Rightarrow> nat \<times> 's \<Rightarrow>
     error option outcome \<times> (nat \<times> 's)" where
  "HandleMessage unmarshal toInt repo message st =
     (case st of (tick, s) \<Rightarrow>
       (case unmarshal message of
          Inl err \<Rightarrow> (Returned (Some (Wrap ''failed to unmarshal message'' err)), (tick, s))
        | Inr kafkaMsg \<Rightarrow>
            (case kafkaMessageToEntity toInt tick kafkaMsg of
               Panicked p \<Rightarrow> (Panicked p, (tick, s))
             | Returned (transaction, err, warnings, tick') \<Rightarrow>
                 (case err of
                    Some e \<Rightarrow>
                      (Returned (Some (Wrap ''failed to convert message to entities'' e)),
                       (tick', s))
                  | None \<Rightarrow>
                      (case ProcessTransaction repo transaction s of
                         ((Some e, transaction', events), s') \<Rightarrow>
                           (Returned (Some (Wrap ''failed to process transaction'' e)),
                            (tick', s'))
                       | ((None, transaction', events), s') \<Rightarrow>
                           (Returned None, (tick', s')))))))"

section \<open>Sample values\<close>

text \<open>
  A TOPUP message and the record it translates to, with \<open>float64\<close> read as
  \<open>real\<close> and \<open>int(x)\<close> as truncation towards zero.
\<close>

definition float64ToInt :: "real \<Rightarrow> int" where
  "float64ToInt x = (if x < 0 then \<lceil>x\<rceil> else \<lfloor>x\<rfloor>)"

definition sampleMessage :: "real KafkaTransactionMessage" where
  "sampleMessage = \<lparr>
     msgID = ''trans-id-123'',
     msgUserID = 456,
     msgAccountID = ''account-456'',
     msgTransactionID = ''trans-456'',
     msgTransactionType = ''TOPUP'',
     msgTransactionStatus = ''SUCCESS'',
     msgAmount = 10000,
     msgBalanceBefore = 1000,
     msgBalanceAfter = 1100,
     msgCurrency = ''IDR'',
     msgDescription = '''',
     msgExternalReference = None,
     msgPaymentMethod = ''BANK_TRANSFER'',
     msgMetadata = None,
     msgIsAccessibleFromExternal = True,
     msgCreatedAt = [IFloat 2024, IFloat 1, IFloat 1, IFloat 12, IFloat 0, IFloat 0],
     msgUpdatedAt = [IFloat 2024] \<rparr>"

definition sampleTransaction :: "real Transaction" where
  "sampleTransaction = \<lparr>
     ID = ''trans-id-123'',
     UserID = 456,
     AccountID = ''account-456'',
     TransactionID = ''trans-456'',
     TransactionType = ''TOPUP'',
     TransactionStatus = ''SUCCESS'',
     Amount = 100,
     BalanceBefore = 1000,
     BalanceAfter = 1100,
     Currency = ''IDR'',
     Description = None,
     ExternalReference = None,
     PaymentMethod = Some ''BANK_TRANSFER'',
     Metadata = None,
     IsAccessibleFromExternal = True,
     CreatedAt = Date 2024 1 1 12 0 0 0,
     UpdatedAt = WallClock 0 \<rparr>"

text \<open>
  The zero test on the times of the samples: \<open>time.Time{}\<close> is zero, a reading of
  a clock is not, and a date is zero when it is written as the first instant of
  year 1.
\<close>

fun sampleIsZero :: "Time \<Rightarrow> bool" where
  "sampleIsZero ZeroTime = True"
| "sampleIsZero (Date y mo d h mi s ns) =
     (y = 1 \<and> mo = 1 \<and> d = 1 \<and> h = 0 \<and> mi = 0 \<and> s = 0 \<and> ns = 0)"
| "sampleIsZero (WallClock n) = False"
| "sampleIsZero (DatabaseNow n) = False"

definition emptyDB :: "real DB" where
  "emptyDB = \<lparr>rows = [], pending = []\<rparr>"

text \<open>The sample record with a zero amount, which fails validation.\<close>

definition zeroAmountTransaction :: "real Transaction" where
  "zeroAmountTransaction = sampleTransaction\<lparr>Amount := 0\<rparr>"

text \<open>
  The sample record as a FAILED transaction; its balance moved from 1000 to
  1100. The second one has a zero amount besides.
\<close>

definition failedTransaction :: "real Transaction" where
  "failedTransaction = sampleTransaction\<lparr>TransactionStatus := ''FAILED''\<rparr>"

definition failedZeroAmountTransaction :: "real Transaction" where
  "failedZeroAmountTransaction = failedTransaction\<lparr>Amount := 0\<rparr>"

text \<open>
  An empty table on which the first call goes through and the second is refused
  with a unique violation: the row a concurrent writer inserted between the
  existence check and the insert.
\<close>

definition racedDB :: "real DB" where
  "racedDB = \<lparr>rows = [], pending = [None, Some unique_violation]\<rparr>"

text \<open>Two handlers over messages that are strings, without a state of their own.\<close>

definition ackHandler :: "string \<Rightarrow> unit \<Rightarrow> error option outcome \<times> unit" where
  "ackHandler message s = (Returned None, s)"

definition failingHandler :: "string \<Rightarrow> unit \<Rightarrow> error option outcome \<times> unit" where
  "failingHandler message s = (Returned (Some (New ''failed to process transaction'')), s)"

text \<open>
  A run of four turns: a message, a broker failure, a second message whose
  commit fails, and a fetch interrupted by the cancellation.
\<close>

definition sampleTurns :: "string turn list" where
  "sampleTurns =
     [\<lparr>ctxErr = None, fetch = Inr ''m1'', commit = None\<rparr>,
      \<lparr>ctxErr = None, fetch = Inl (New ''broker down''), commit = None\<rparr>,
      \<lparr>ctxErr = None, fetch = Inr ''m2'', commit = Some (New ''commit failed'')\<rparr>,
      \<lparr>ctxErr = None, fetch = Inl Canceled, commit = None\<rparr>]"

text \<open>
  A run of two turns: a message is fetched and handled, the context is
  cancelled meanwhile, and the next \<open>select\<close> finds \<open>ctx.Done()\<close> closed.
\<close>

definition cancelledTurns :: "string turn list" where
  "cancelledTurns =
     [\<lparr>ctxErr = None, fetch = Inr ''m1'', commit = None\<rparr>,
      \<lparr>ctxErr = Some Canceled, fetch = Inl Canceled, commit = None\<rparr>]"

section \<open>Facts about the runtime values\<close>

lemma bindO_Returned [simp]: "bindO (Returned a) f = f a"
  by (simp add: bindO_def)

lemma bindO_Panicked [simp]: "bindO (Panicked p) f = Panicked p"
  by (simp add: bindO_def)

lemma isFloat64_iff: "isFloat64 v \<longleftrightarrow> (\<exists>x. v = IFloat x)"
  by (cases v) auto

lemma six_members:
  assumes "\<not> length ts < 6"
  obtains a b c d e f rest where "ts = a # b # c # d # e # f # rest"
proof -
  from assms have "Suc (Suc (Suc (Suc (Suc (Suc 0))))) \<le> length ts"
    by simp
  then show thesis
    using that by (auto simp: Suc_le_length_iff)
qed

section \<open>The Event Translator\<close>

lemma parseTimestamp_short:
  "length ts < 6 \<Longrightarrow>
     parseTimestamp toInt ts =
       Returned (ZeroTime, Some (New (''invalid timestamp array length: '' @ showNat (length ts))))"
  by (simp add: parseTimestamp_def)

lemma parseTimestamp_floats:
  assumes "\<not> length ts < 6" and "list_all isFloat64 (take 7 ts)"
  shows "\<exists>tm. parseTimestamp toInt ts = Returned (tm, None)"
proof -
  from assms(1) obtain a b c d e f rest where ts: "ts = a # b # c # d # e # f # rest"
    by (rule six_members)
  from assms(2) have fl: "isFloat64 a" "isFloat64 b" "isFloat64 c" "isFloat64 d"
      "isFloat64 e" "isFloat64 f"
    by (simp_all add: ts)
  then obtain ya yb yc yd ye yf where vals: "a = IFloat ya" "b = IFloat yb" "c = IFloat yc"
      "d = IFloat yd" "e = IFloat ye" "f = IFloat yf"
    by (auto simp: isFloat64_iff)
  show ?thesis
  proof (cases rest)
    case Nil
    then show ?thesis by (simp add: parseTimestamp_def ts vals)
  next
    case (Cons g rest')
    with assms(2) have "isFloat64 g" by (simp add: ts)
    then obtain yg where "g = IFloat yg" by (auto simp: isFloat64_iff)
    with Cons show ?thesis by (simp add: parseTimestamp_def ts vals)
  qed
qed

lemma parseTimestamp_returns:
  assumes "assertionsHold ts"
  shows "\<exists>tm err. parseTimestamp toInt ts = Returned (tm, err) \<and>
                   (err \<noteq> None \<longleftrightarrow> length ts < 6)"
proof (cases "length ts < 6")
  case True
  then show ?thesis by (simp add: parseTimestamp_short)
next
  case False
  with assms have "list_all isFloat64 (take 7 ts)" by (simp add: assertionsHold_def)
  from parseTimestamp_floats [OF False this] False show ?thesis by auto
qed

text \<open>
  What the translation yields whenever neither timestamp array trips a type
  assertion: it returns a record and a nil error; the amount is the quotient by
  100; an empty description or payment method is left nil; a timestamp array
  shorter than six is replaced by the reading of the clock taken at that
  moment, and a warning is logged for it.
\<close>

lemma kafkaMessageToEntity_returns:
  assumes "assertionsHold (msgCreatedAt m)" and "assertionsHold (msgUpdatedAt m)"
  shows "\<exists>t warnings tick'.
           kafkaMessageToEntity toInt tick m = Returned (t, None, warnings, tick') \<and>
           Amount t = msgAmount m / 100 \<and>
           Description t = (if msgDescription m = '''' then None else Some (msgDescription m)) \<and>
           PaymentMethod t =
             (if msgPaymentMethod m = '''' then None else Some (msgPaymentMethod m)) \<and>
           (length (msgCreatedAt m) < 6 \<longrightarrow> CreatedAt t = WallClock tick) \<and>
           (length (msgUpdatedAt m) < 6 \<longrightarrow>
              UpdatedAt t = WallClock (if length (msgCreatedAt m) < 6 then Suc tick else tick))"
proof -
  from parseTimestamp_returns [OF assms(1)] obtain tc ec
    where c: "parseTimestamp toInt (msgCreatedAt m) = Returned (tc, ec)"
      and ec: "ec \<noteq> None \<longleftrightarrow> length (msgCreatedAt m) < 6"
    by blast
  from parseTimestamp_returns [OF assms(2)] obtain tu eu
    where u: "parseTimestamp toInt (msgUpdatedAt m) = Returned (tu, eu)"
      and eu: "eu \<noteq> None \<longleftrightarrow> length (msgUpdatedAt m) < 6"
    by blast
  show ?thesis
    using ec eu by (simp add: kafkaMessageToEntity_def c u Let_def)
qed

text \<open>
  A \<open>createdAt\<close> array with fewer than six members does not stop the
  translation: the record carries the clock reading in \<open>CreatedAt\<close>, and the
  warning is logged.
\<close>

lemma short_createdAt_is_replaced:
  assumes "length (msgCreatedAt m) < 6" and "assertionsHold (msgUpdatedAt m)"
  shows "\<exists>t warnings tick'.
           kafkaMessageToEntity toInt tick m = Returned (t, None, warnings, tick') \<and>
           CreatedAt t = WallClock tick \<and>
           (WarnL, ''Failed to parse createdAt, using current time'') \<in> set warnings"
proof -
  from parseTimestamp_returns [OF assms(2)] obtain tu eu
    where u: "parseTimestamp toInt (msgUpdatedAt m) = Returned (tu, eu)"
    by blast
  show ?thesis
    using assms(1) by (simp add: kafkaMessageToEntity_def parseTimestamp_short u Let_def)
qed

text \<open>
  On every other array \<open>parseTimestamp\<close> panics: six members or more, and one
  of the first seven is not a \<open>float64\<close>.
\<close>

lemma assertFloat64_case:
  "bindO (assertFloat64 v) f =
     (case v of
        IFloat x \<Rightarrow> f x
      | _ \<Rightarrow> Panicked (''interface conversion: interface {} is '' @ typeName v @
                       '', not float64''))"
  by (cases v) simp_all

lemma parseTimestamp_panics:
  assumes "\<not> assertionsHold ts"
  shows "\<exists>p. parseTimestamp toInt ts = Panicked p"
proof -
  from assms have len: "\<not> length ts < 6" and nf: "\<not> list_all isFloat64 (take 7 ts)"
    by (simp_all add: assertionsHold_def)
  from len obtain a b c d e f rest where ts: "ts = a # b # c # d # e # f # rest"
    by (rule six_members)
  show ?thesis
  proof (cases rest)
    case Nil
    with nf show ?thesis
      by (auto simp: parseTimestamp_def ts assertFloat64_case split: iface.splits)
  next
    case (Cons g rest')
    with nf show ?thesis
      by (auto simp: parseTimestamp_def ts assertFloat64_case split: iface.splits)
  qed
qed

text \<open>A panic of the conversion leaves \<open>HandleMessage\<close> as a panic.\<close>

lemma HandleMessage_panics:
  assumes "unmarshal message = Inr kafkaMsg"
      and "kafkaMessageToEntity toInt tick kafkaMsg = Panicked p"
  shows "HandleMessage unmarshal toInt repo message (tick, s) = (Panicked p, (tick, s))"
  using assms by (simp add: HandleMessage_def)

text \<open>
  C4: a timestamp array with a non-numeric member should be replaced by the
  current instant without aborting. The code does not do so: with six members
  of which the first is the string "2024", \<open>parseTimestamp\<close> panics in the type
  assertion, \<open>kafkaMessageToEntity\<close> panics with it, and so does
  \<open>HandleMessage\<close>; no record is produced.
\<close>

theorem C4_non_numeric_member_panics:
  "kafkaMessageToEntity float64ToInt 0
     (sampleMessage\<lparr>msgCreatedAt :=
        [IString ''2024'', IFloat 1, IFloat 1, IFloat 12, IFloat 0, IFloat 0]\<rparr>)
   = Panicked ''interface conversion: interface {} is string, not float64''"
  by (simp add: kafkaMessageToEntity_def parseTimestamp_def sampleMessage_def)

text \<open>
  Whenever the translation returns, the amount of the record is the raw amount
  divided by 100: one \<open>float64\<close> division, by the constant 100, and no other
  operation on the value.
\<close>

lemma amount_is_raw_amount_over_100:
  assumes "assertionsHold (msgCreatedAt m)" and "assertionsHold (msgUpdatedAt m)"
  shows "\<exists>t warnings tick'.
           kafkaMessageToEntity toInt tick m = Returned (t, None, warnings, tick') \<and>
           Amount t = msgAmount m / 100"
  using kafkaMessageToEntity_returns [OF assms, of toInt tick] by blast

text \<open>
  Whenever the translation returns, an empty description, and an empty payment
  method, of the message leave the corresponding field of the record nil; a
  non-empty one is carried over as a present value.
\<close>

lemma empty_text_is_absent:
  assumes "assertionsHold (msgCreatedAt m)" and "assertionsHold (msgUpdatedAt m)"
  shows "\<exists>t warnings tick'.
           kafkaMessageToEntity toInt tick m = Returned (t, None, warnings, tick') \<and>
           Description t = (if msgDescription m = '''' then None else Some (msgDescription m)) \<and>
           PaymentMethod t =
             (if msgPaymentMethod m = '''' then None else Some (msgPaymentMethod m))"
  using kafkaMessageToEntity_returns [OF assms, of toInt tick] by blast

text \<open>
  C5: for every raw event the translation should produce a record whose amount
  is the raw amount divided by 100. The code does not produce a record for every
  raw event: on the sample message, whose amount is 10000, with a JSON null as
  the sixth member of \<open>updatedAt\<close>, the type assertion in \<open>parseTimestamp\<close>
  panics and the translation yields no record and no amount. This is the defect
  of C4; where the translation returns, the amount is as claimed
  (\<open>amount_is_raw_amount_over_100\<close>).
\<close>

theorem C5_no_record_no_amount:
  "msgAmount sampleMessage = 10000 \<and>
   kafkaMessageToEntity float64ToInt 0
     (sampleMessage\<lparr>msgUpdatedAt :=
        [IFloat 2024, IFloat 1, IFloat 1, IFloat 12, IFloat 0, INil]\<rparr>)
   = Panicked ''interface conversion: interface {} is nil, not float64''"
  by (simp add: kafkaMessageToEntity_def parseTimestamp_def sampleMessage_def)

text \<open>
  C6: for every raw event with an empty description the translation should
  produce a record whose description is nil. The code does not produce a record
  for every such event: on the sample message, whose description is empty, with
  the string "12" as the fourth member of \<open>createdAt\<close>, the type assertion in
  \<open>parseTimestamp\<close> panics and the translation yields no record. This is the
  defect of C4; where the translation returns, the two fields are as claimed
  (\<open>empty_text_is_absent\<close>).
\<close>

theorem C6_no_record_for_empty_description:
  "msgDescription sampleMessage = '''' \<and>
   kafkaMessageToEntity float64ToInt 0
     (sampleMessage\<lparr>msgCreatedAt :=
        [IFloat 2024, IFloat 1, IFloat 1, IString ''12'', IFloat 0, IFloat 0]\<rparr>)
   = Panicked ''interface conversion: interface {} is string, not float64''"
  by (simp add: kafkaMessageToEntity_def parseTimestamp_def sampleMessage_def)

section \<open>The Idempotent Writer\<close>

text \<open>
  C2: a record that fails one of the five invariants is rejected with the error
  "invalid transaction data"; \<open>ProcessTransaction\<close> then calls neither \<open>Exists\<close>
  nor \<open>Create\<close>, logs nothing, and leaves the record and the state behind the
  repository as they were.
\<close>

theorem C2_invalid_is_rejected:
  assumes "UserID t \<le> 0 \<or> AccountID t = '''' \<or> TransactionID t = '''' \<or>
           TransactionType t = '''' \<or> \<not> Amount t > 0"
  shows "ProcessTransaction repo t s = ((Some (New ''invalid transaction data''), t, []), s)
         \<and> (case ProcessTransaction repo t s of ((err, t', events), s') \<Rightarrow>
               outcomeOf err events = Rejected \<and>
               \<not> list_ex isExistsCalled events \<and>
               \<not> list_ex isCreateCalled events \<and>
               s' = s)"
proof -
  from assms have "\<not> IsValid t"
    by (auto simp: IsValid_def)
  then have run:
    "ProcessTransaction repo t s = ((Some (New ''invalid transaction data''), t, []), s)"
    by (simp add: ProcessTransaction_def)
  show ?thesis
    unfolding run by (simp add: outcomeOf_def)
qed

theorem C2_invalid_is_rejected_witness:
  "\<not> Amount (sampleTransaction\<lparr>Amount := 0\<rparr>) > 0 \<and>
   ProcessTransaction (NewTransactionRepository sampleIsZero) (sampleTransaction\<lparr>Amount := 0\<rparr>) emptyDB
     = ((Some (New ''invalid transaction data''), sampleTransaction\<lparr>Amount := 0\<rparr>, []), emptyDB)"
  using C2_invalid_is_rejected
          [of "sampleTransaction\<lparr>Amount := 0\<rparr>" "NewTransactionRepository sampleIsZero" emptyDB]
  by (simp add: sampleTransaction_def)

lemma sample_valid: "IsValid sampleTransaction"
  by (simp add: IsValid_def sampleTransaction_def)

text \<open>
  C3: a unique-constraint violation reported by \<open>Create\<close> should count as
  Skipped. In the code every error of \<open>Create\<close> takes the same path: it is
  logged at error level and returned wrapped as "failed to create transaction",
  which is the Failed outcome; nothing looks at the kind of the error. So for
  every valid record that the existence check reports absent, and every error
  \<open>e\<close> of \<open>Create\<close> (a unique violation included), the result is Failed.
\<close>

theorem C3_create_error_is_failed:
  assumes "IsValid t"
      and "Exists repo (TransactionID t) s = ((False, None), s1)"
      and "Create repo t s1 = ((Some e, t'), s2)"
  shows "ProcessTransaction repo t s =
           ((Some (Wrap ''failed to create transaction'' e), t',
             [ExistsCalled (TransactionID t)] @ balanceWarning t @
             [CreateCalled t, Logged ErrorL ''Failed to create transaction'']), s2)
         \<and> outcomeOf (Some (Wrap ''failed to create transaction'' e))
              ([ExistsCalled (TransactionID t)] @ balanceWarning t @
               [CreateCalled t, Logged ErrorL ''Failed to create transaction'']) = Failed"
  using assms by (simp add: ProcessTransaction_def outcomeOf_def)

lemma raced_exists:
  "Exists (NewTransactionRepository sampleIsZero) (TransactionID sampleTransaction) racedDB
     = ((False, None), \<lparr>rows = [], pending = [Some unique_violation]\<rparr>)"
  by (simp add: NewTransactionRepository_def transactionRepository_Exists_def gorm_Count_def
      nextFault_def racedDB_def)

lemma raced_create:
  "Create (NewTransactionRepository sampleIsZero) sampleTransaction
       \<lparr>rows = [], pending = [Some unique_violation]\<rparr>
     = ((Some (Wrap ''failed to create transaction'' unique_violation), sampleTransaction),
        \<lparr>rows = [], pending = []\<rparr>)"
  by (simp add: NewTransactionRepository_def transactionRepository_Create_def gorm_Create_def
      nextFault_def Let_def)

theorem C3_create_error_is_failed_witness:
  "IsValid sampleTransaction \<and>
   Exists (NewTransactionRepository sampleIsZero) (TransactionID sampleTransaction) racedDB
     = ((False, None), \<lparr>rows = [], pending = [Some unique_violation]\<rparr>) \<and>
   ProcessTransaction (NewTransactionRepository sampleIsZero) sampleTransaction racedDB =
     ((Some (Wrap ''failed to create transaction''
              (Wrap ''failed to create transaction'' unique_violation)),
       sampleTransaction,
       [ExistsCalled ''trans-456'', CreateCalled sampleTransaction,
        Logged ErrorL ''Failed to create transaction'']),
      \<lparr>rows = [], pending = []\<rparr>)"
proof -
  have "balanceWarning sampleTransaction = []"
    by (simp add: balanceWarning_def sampleTransaction_def TransactionStatusFailed_def)
  moreover have "TransactionID sampleTransaction = ''trans-456''"
    by (simp add: sampleTransaction_def)
  ultimately show ?thesis
    using C3_create_error_is_failed [OF sample_valid raced_exists raced_create]
      sample_valid raced_exists
    by simp
qed

text \<open>
  The claim of C3 fails on the sample record and the raced table: the error of
  \<open>Create\<close> is a unique violation, and \<open>ProcessTransaction\<close> returns it as an
  error, the Failed outcome.
\<close>

theorem C3_unique_violation_counterexample:
  "errors_Is (Wrap ''failed to create transaction''
               (Wrap ''failed to create transaction'' unique_violation)) unique_violation \<and>
   fst (fst (ProcessTransaction (NewTransactionRepository sampleIsZero) sampleTransaction racedDB)) =
     Some (Wrap ''failed to create transaction''
            (Wrap ''failed to create transaction'' unique_violation)) \<and>
   outcomeOf (fst (fst (ProcessTransaction (NewTransactionRepository sampleIsZero) sampleTransaction racedDB)))
             (snd (snd (fst (ProcessTransaction (NewTransactionRepository sampleIsZero) sampleTransaction
                               racedDB))))
     = Failed"
proof -
  have "errors_Is (Wrap ''failed to create transaction''
               (Wrap ''failed to create transaction'' unique_violation)) unique_violation"
    by (simp add: unique_violation_def)
  moreover have "ProcessTransaction (NewTransactionRepository sampleIsZero) sampleTransaction racedDB =
     ((Some (Wrap ''failed to create transaction''
              (Wrap ''failed to create transaction'' unique_violation)),
       sampleTransaction,
       [ExistsCalled (TransactionID sampleTransaction)] @ balanceWarning sampleTransaction @
       [CreateCalled sampleTransaction, Logged ErrorL ''Failed to create transaction'']),
      \<lparr>rows = [], pending = []\<rparr>)"
    by (simp add: ProcessTransaction_def sample_valid raced_exists raced_create)
  ultimately show ?thesis
    by (simp add: outcomeOf_def)
qed

text \<open>
  C7: the warning for a FAILED record whose balance changed is additive. It is
  logged exactly when the record gets as far as the call of \<open>Create\<close> (it is
  valid, and the existence check succeeded and found no row), and not when the
  record is rejected, skipped, or the existence check failed. Taking the
  warning out of what \<open>ProcessTransaction\<close> did leaves what the use case without
  the balance check does: same returned error, same record, same repository
  calls and state, same outcome.
\<close>

theorem C7_warning_is_additive:
  assumes "TransactionStatus t = TransactionStatusFailed"
      and "BalanceBefore t \<noteq> BalanceAfter t"
      and "ProcessTransaction repo t s = ((err, t', events), s')"
  shows "ProcessTransaction_unchecked repo t s =
           ((err, t', filter (\<lambda>e. \<not> isWarning e) events), s')
         \<and> filter isWarning events =
             (if list_ex isCreateCalled events
              then [Logged WarnL ''Failed transaction has balance change''] else [])
         \<and> outcomeOf err (filter (\<lambda>e. \<not> isWarning e) events) = outcomeOf err events"
proof -
  have w: "balanceWarning t = [Logged WarnL ''Failed transaction has balance change'']"
    using assms(1,2) by (simp add: balanceWarning_def)
  show ?thesis
    using assms(3)
    by (auto simp: ProcessTransaction_def ProcessTransaction_unchecked_def w outcomeOf_def
             split: if_splits prod.splits option.splits)
qed

lemma failed_run:
  "ProcessTransaction (NewTransactionRepository sampleIsZero) failedTransaction emptyDB =
     ((None, failedTransaction,
       [ExistsCalled ''trans-456'',
        Logged WarnL ''Failed transaction has balance change'',
        CreateCalled failedTransaction,
        Logged InfoL ''Transaction processed successfully'']),
      \<lparr>rows = [entityToModel failedTransaction], pending = []\<rparr>)"
  by (simp add: ProcessTransaction_def IsValid_def NewTransactionRepository_def
      transactionRepository_Exists_def gorm_Count_def nextFault_def emptyDB_def
      transactionRepository_Create_def gorm_Create_def Let_def entityToModel_def
      gormDefaults_def databaseDefaults_def
      balanceWarning_def TransactionStatusFailed_def
      failedTransaction_def sampleTransaction_def)

theorem C7_warning_is_additive_witness:
  "TransactionStatus failedTransaction = TransactionStatusFailed \<and>
   BalanceBefore failedTransaction \<noteq> BalanceAfter failedTransaction \<and>
   ProcessTransaction_unchecked (NewTransactionRepository sampleIsZero) failedTransaction emptyDB =
     ((None, failedTransaction,
       [ExistsCalled ''trans-456'',
        CreateCalled failedTransaction,
        Logged InfoL ''Transaction processed successfully'']),
      \<lparr>rows = [entityToModel failedTransaction], pending = []\<rparr>)"
proof -
  have st: "TransactionStatus failedTransaction = TransactionStatusFailed"
    by (simp add: failedTransaction_def TransactionStatusFailed_def)
  have bal: "BalanceBefore failedTransaction \<noteq> BalanceAfter failedTransaction"
    by (simp add: failedTransaction_def sampleTransaction_def)
  from C7_warning_is_additive [OF st bal failed_run] st bal show ?thesis
    by simp
qed

text \<open>
  The claim of C7 fails on a FAILED record whose balance changed and whose
  amount is zero: it is rejected before the balance check, and nothing is
  logged.
\<close>

theorem C7_no_warning_counterexample:
  "TransactionStatus failedZeroAmountTransaction = TransactionStatusFailed \<and>
   BalanceBefore failedZeroAmountTransaction \<noteq> BalanceAfter failedZeroAmountTransaction \<and>
   ProcessTransaction (NewTransactionRepository sampleIsZero) failedZeroAmountTransaction emptyDB =
     ((Some (New ''invalid transaction data''), failedZeroAmountTransaction, []), emptyDB)"
  by (simp add: ProcessTransaction_def IsValid_def failedZeroAmountTransaction_def
      failedTransaction_def sampleTransaction_def TransactionStatusFailed_def)

section \<open>The repository on the database\<close>

lemma modelID_entityToModel [simp]: "modelID (entityToModel t) = ID t"
  by (simp add: entityToModel_def Let_def split: option.splits)

lemma modelTransactionID_entityToModel [simp]:
  "modelTransactionID (entityToModel t) = TransactionID t"
  by (simp add: entityToModel_def Let_def split: option.splits)

lemma fold_max_start: "(a::nat) \<le> fold max xs a"
proof (induction xs arbitrary: a)
  case Nil
  show ?case by simp
next
  case (Cons x xs)
  have "a \<le> max x a" by simp
  also have "\<dots> \<le> fold max xs (max x a)" by (rule Cons.IH)
  finally show ?case by simp
qed

lemma fold_max_member: "x \<in> set xs \<Longrightarrow> (x::nat) \<le> fold max xs a"
proof (induction xs arbitrary: a)
  case Nil
  then show ?case by simp
next
  case (Cons y ys)
  show ?case
  proof (cases "x = y")
    case True
    have "x \<le> max y a" using True by simp
    also have "\<dots> \<le> fold max ys (max y a)" by (rule fold_max_start)
    finally show ?thesis by simp
  next
    case False
    with Cons.prems have "x \<in> set ys" by simp
    from Cons.IH [OF this] show ?thesis by simp
  qed
qed

text \<open>The generated identifier is one no stored row has.\<close>

lemma gen_random_uuid_fresh: "\<not> list_ex (\<lambda>m. modelID m = gen_random_uuid table) table"
proof
  assume "list_ex (\<lambda>m. modelID m = gen_random_uuid table) table"
  then obtain m where m: "m \<in> set table" and eq: "modelID m = gen_random_uuid table"
    by (auto simp: list_ex_iff)
  from m have "length (modelID m) \<le> fold max (map (\<lambda>m. length (modelID m)) table) 0"
    by (intro fold_max_member) auto
  moreover have "length (gen_random_uuid table)
                   = Suc (fold max (map (\<lambda>m. length (modelID m)) table) 0)"
    by (simp add: gen_random_uuid_def)
  ultimately show False using eq by simp
qed

text \<open>\<open>Exists\<close> on a database with no pending fault tells whether a row is stored.\<close>

lemma Exists_no_fault:
  assumes "pending db = []"
  shows "transactionRepository_Exists k db =
           ((list_ex (\<lambda>m. modelTransactionID m = k) (rows db), None), db)"
proof -
  have "(0 < length (filter (\<lambda>m. modelTransactionID m = k) (rows db)))
          = list_ex (\<lambda>m. modelTransactionID m = k) (rows db)"
    by (auto simp: list_ex_iff filter_empty_conv)
  then show ?thesis
    using assms by (simp add: transactionRepository_Exists_def gorm_Count_def nextFault_def)
qed

lemma modelID_gormDefaults [simp]: "modelID (gormDefaults model) = modelID model"
  by (simp add: gormDefaults_def)

lemma modelTransactionID_gormDefaults [simp]:
  "modelTransactionID (gormDefaults model) = modelTransactionID model"
  by (simp add: gormDefaults_def)

lemma modelTransactionID_databaseDefaults [simp]:
  "modelTransactionID (databaseDefaults isZero table model) = modelTransactionID model"
  by (simp add: databaseDefaults_def)

lemma modelID_databaseDefaults:
  "modelID (databaseDefaults isZero table model) =
     (if modelID model = '''' then gen_random_uuid table else modelID model)"
  by (simp add: databaseDefaults_def)

text \<open>
  \<open>Create\<close> on a database with no pending fault, for a record whose transaction
  id and primary key are not stored yet, appends the row, with its defaults
  filled in, and writes the \<open>ID\<close> of that row into the record.
\<close>

lemma Create_no_fault:
  assumes "pending db = []"
      and "\<not> list_ex (\<lambda>m. modelTransactionID m = TransactionID t) (rows db)"
      and "ID t = '''' \<or> \<not> list_ex (\<lambda>m. modelID m = ID t) (rows db)"
  shows "transactionRepository_Create isZero t db =
           ((None, t\<lparr>ID := modelID (databaseDefaults isZero (rows db)
                                       (gormDefaults (entityToModel t)))\<rparr>),
            db\<lparr>rows := rows db @
                   [databaseDefaults isZero (rows db) (gormDefaults (entityToModel t))]\<rparr>)"
proof -
  define row where "row = databaseDefaults isZero (rows db) (gormDefaults (entityToModel t))"
  have tid: "modelTransactionID row = TransactionID t"
    by (simp add: row_def)
  have "\<not> list_ex (\<lambda>m. modelID m = modelID row) (rows db)"
  proof (cases "ID t = ''''")
    case True
    then have "modelID row = gen_random_uuid (rows db)"
      by (simp add: row_def modelID_databaseDefaults)
    then show ?thesis
      using gen_random_uuid_fresh [of "rows db"] by simp
  next
    case False
    then have "modelID row = ID t"
      by (simp add: row_def modelID_databaseDefaults)
    with False assms(3) show ?thesis by simp
  qed
  with assms(2)
  have "\<not> list_ex (\<lambda>m. modelID m = modelID row \<or>
                        modelTransactionID m = TransactionID t) (rows db)"
    by (auto simp: list_ex_iff)
  then show ?thesis
    using assms(1)
    by (simp add: transactionRepository_Create_def gorm_Create_def nextFault_def Let_def
        row_def [symmetric])
qed

lemma gorm_Create_success:
  assumes "gorm_Create isZero model db = ((None, model'), db')"
  shows "model' = databaseDefaults isZero (rows db) (gormDefaults model) \<and>
         rows db' = rows db @ [model']"
  using assms
  by (auto simp: gorm_Create_def nextFault_def Let_def
           split: list.splits option.splits if_splits prod.splits)

text \<open>
  C10: \<open>Create\<close> writes through the pointer it receives. After a successful
  call the record is the input with its \<open>ID\<close> replaced by the \<open>ID\<close> of the row the
  database stored (the generated one when the input had none, the input's own
  otherwise); every other field of the record is as it was, also where the
  stored row took a default.
\<close>

theorem C10_Create_overwrites_only_ID:
  assumes "transactionRepository_Create isZero t db = ((None, t'), db')"
  shows "t' = t\<lparr>ID := ID t'\<rparr> \<and>
         rows db' = rows db @
           [databaseDefaults isZero (rows db) (gormDefaults (entityToModel t))] \<and>
         ID t' = modelID (databaseDefaults isZero (rows db) (gormDefaults (entityToModel t))) \<and>
         (ID t \<noteq> '''' \<longrightarrow> ID t' = ID t)"
proof -
  from assms obtain model' where
    g: "gorm_Create isZero (entityToModel t) db = ((None, model'), db')"
    and t': "t' = t\<lparr>ID := modelID model'\<rparr>"
    by (auto simp: transactionRepository_Create_def Let_def split: prod.splits option.splits)
  from gorm_Create_success [OF g] t' show ?thesis
    by (auto simp: modelID_databaseDefaults)
qed

theorem C10_Create_overwrites_only_ID_witness:
  "transactionRepository_Create sampleIsZero (sampleTransaction\<lparr>ID := ''''\<rparr>) emptyDB
     = ((None, sampleTransaction\<lparr>ID := ''0''\<rparr>),
        \<lparr>rows = [(entityToModel sampleTransaction)\<lparr>modelID := ''0''\<rparr>], pending = []\<rparr>)
   \<and> sampleTransaction\<lparr>ID := ''0''\<rparr> = (sampleTransaction\<lparr>ID := ''''\<rparr>)\<lparr>ID := ''0''\<rparr>"
proof -
  have run: "transactionRepository_Create sampleIsZero (sampleTransaction\<lparr>ID := ''''\<rparr>) emptyDB
     = ((None, sampleTransaction\<lparr>ID := ''0''\<rparr>),
        \<lparr>rows = [(entityToModel sampleTransaction)\<lparr>modelID := ''0''\<rparr>], pending = []\<rparr>)"
    by (simp add: transactionRepository_Create_def gorm_Create_def nextFault_def emptyDB_def
        gen_random_uuid_def entityToModel_def sampleTransaction_def Let_def
        gormDefaults_def databaseDefaults_def)
  from C10_Create_overwrites_only_ID [OF run] run show ?thesis
    by simp
qed

text \<open>
  The defaults go into the stored row and not into the record: the sample with
  an empty currency and a false flag is stored with IDR and true, and comes back
  from \<open>Create\<close> as it went in.
\<close>

lemma stored_row_takes_defaults:
  "transactionRepository_Create sampleIsZero
     (sampleTransaction\<lparr>Currency := '''', IsAccessibleFromExternal := False\<rparr>) emptyDB
   = ((None, sampleTransaction\<lparr>Currency := '''', IsAccessibleFromExternal := False\<rparr>),
      \<lparr>rows = [entityToModel sampleTransaction], pending = []\<rparr>)"
  by (simp add: transactionRepository_Create_def gorm_Create_def nextFault_def emptyDB_def
      entityToModel_def sampleTransaction_def Let_def gormDefaults_def databaseDefaults_def)

section \<open>Idempotence of the writer on the database\<close>

text \<open>
  C1: calling \<open>ProcessTransaction\<close> twice with records that share a transaction
  id gives Written and then Skipped, the second call does not call \<open>Create\<close>,
  and the table ends with exactly one row for that id. This holds when both
  records are valid, the database reports no fault, and the first record is new
  to the table: no row has its transaction id, nor its \<open>ID\<close> when it brings
  one.
\<close>

theorem C1_written_then_skipped:
  assumes "IsValid r" and "IsValid r2" and "TransactionID r2 = TransactionID r"
      and "pending db = []"
      and "\<not> list_ex (\<lambda>m. modelTransactionID m = TransactionID r) (rows db)"
      and "ID r = '''' \<or> \<not> list_ex (\<lambda>m. modelID m = ID r) (rows db)"
  shows "\<exists>r' events1 db1 events2.
           ProcessTransaction (NewTransactionRepository isZero) r db = ((None, r', events1), db1) \<and>
           outcomeOf None events1 = Written \<and>
           ProcessTransaction (NewTransactionRepository isZero) r2 db1 = ((None, r2, events2), db1) \<and>
           outcomeOf None events2 = Skipped \<and>
           \<not> list_ex isCreateCalled events2 \<and>
           length (filter (\<lambda>m. modelTransactionID m = TransactionID r) (rows db1)) = 1"
proof -
  have ex1: "Exists (NewTransactionRepository isZero) (TransactionID r) db = ((False, None), db)"
    using assms(4,5) by (simp add: NewTransactionRepository_def Exists_no_fault)
  define row where "row = databaseDefaults isZero (rows db) (gormDefaults (entityToModel r))"
  define k where "k = modelID row"
  have cr: "Create (NewTransactionRepository isZero) r db =
           ((None, r\<lparr>ID := k\<rparr>), db\<lparr>rows := rows db @ [row]\<rparr>)"
    using Create_no_fault [OF assms(4,5,6), of isZero]
    by (simp add: NewTransactionRepository_def row_def k_def)
  have tid: "modelTransactionID row = TransactionID r"
    by (simp add: row_def)
  define db1 where "db1 = db\<lparr>rows := rows db @ [row]\<rparr>"
  define events1 where
    "events1 = [ExistsCalled (TransactionID r)] @ balanceWarning r @
               [CreateCalled r, Logged InfoL ''Transaction processed successfully'']"
  have run1:
    "ProcessTransaction (NewTransactionRepository isZero) r db = ((None, r\<lparr>ID := k\<rparr>, events1), db1)"
    using assms(1) by (simp add: ProcessTransaction_def ex1 cr db1_def events1_def)
  have w: "outcomeOf None events1 = Written"
    by (simp add: outcomeOf_def events1_def)
  have p1: "pending db1 = []"
    using assms(4) by (simp add: db1_def)
  have stored: "list_ex (\<lambda>m. modelTransactionID m = TransactionID r2) (rows db1)"
    using assms(3) tid by (simp add: db1_def)
  have ex2: "Exists (NewTransactionRepository isZero) (TransactionID r2) db1 = ((True, None), db1)"
    using stored by (simp add: NewTransactionRepository_def Exists_no_fault [OF p1])
  define events2 where
    "events2 = [ExistsCalled (TransactionID r2),
                Logged InfoL ''Transaction already exists, skipping'' :: 'a uc_event]"
  have run2: "ProcessTransaction (NewTransactionRepository isZero) r2 db1 = ((None, r2, events2), db1)"
    using assms(2) by (simp add: ProcessTransaction_def ex2 events2_def)
  have sk: "outcomeOf None events2 = Skipped" "\<not> list_ex isCreateCalled events2"
    by (simp_all add: outcomeOf_def events2_def)
  have "filter (\<lambda>m. modelTransactionID m = TransactionID r) (rows db) = []"
    using assms(5) by (auto simp: list_ex_iff filter_empty_conv)
  then have one: "length (filter (\<lambda>m. modelTransactionID m = TransactionID r) (rows db1)) = 1"
    using tid by (simp add: db1_def)
  from run1 w run2 sk one show ?thesis
    by blast
qed

theorem C1_written_then_skipped_witness:
  "IsValid sampleTransaction \<and> IsValid (sampleTransaction\<lparr>Amount := 5\<rparr>) \<and>
   pending emptyDB = [] \<and> rows emptyDB = [] \<and>
   (\<exists>r' events1 db1 events2.
      ProcessTransaction (NewTransactionRepository sampleIsZero) sampleTransaction emptyDB
        = ((None, r', events1), db1) \<and>
      outcomeOf None events1 = Written \<and>
      ProcessTransaction (NewTransactionRepository sampleIsZero) (sampleTransaction\<lparr>Amount := 5\<rparr>) db1
        = ((None, sampleTransaction\<lparr>Amount := 5\<rparr>, events2), db1) \<and>
      outcomeOf None events2 = Skipped \<and>
      \<not> list_ex isCreateCalled events2 \<and>
      length (filter (\<lambda>m. modelTransactionID m = ''trans-456'') (rows db1)) = 1)"
proof -
  have v2: "IsValid (sampleTransaction\<lparr>Amount := 5\<rparr>)"
    by (simp add: IsValid_def sampleTransaction_def)
  have same: "TransactionID (sampleTransaction\<lparr>Amount := 5\<rparr>) = TransactionID sampleTransaction"
    by simp
  have p: "pending emptyDB = []" and e: "rows emptyDB = []"
    by (simp_all add: emptyDB_def)
  have new: "\<not> list_ex (\<lambda>m. modelTransactionID m = TransactionID sampleTransaction)
                 (rows emptyDB)"
    by (simp add: e)
  have pk: "ID sampleTransaction = '''' \<or>
            \<not> list_ex (\<lambda>m. modelID m = ID sampleTransaction) (rows emptyDB)"
    by (simp add: e)
  have tid: "TransactionID sampleTransaction = ''trans-456''"
    by (simp add: sampleTransaction_def)
  from C1_written_then_skipped [OF sample_valid v2 same p new pk] sample_valid v2 p e
  show ?thesis
    unfolding tid by simp
qed

text \<open>
  The claim of C1 fails on a record with a zero amount and the empty table: the
  call is Rejected, not Written, the table is left as it was, so a second call
  is Rejected again and no row is stored.
\<close>

theorem C1_invalid_record_counterexample:
  "ProcessTransaction (NewTransactionRepository sampleIsZero) zeroAmountTransaction emptyDB
     = ((Some (New ''invalid transaction data''), zeroAmountTransaction, []), emptyDB) \<and>
   outcomeOf (Some (New ''invalid transaction data'')) ([] :: real uc_event list) = Rejected \<and>
   rows emptyDB = []"
  by (simp add: ProcessTransaction_def IsValid_def zeroAmountTransaction_def
      sampleTransaction_def outcomeOf_def emptyDB_def)

section \<open>The Ingestion Loop\<close>

lemma filter_messageRound [simp]: "filter isMessageEvent (messageRound me) = messageRound me"
  by (simp add: messageRound_def)

lemma committed_append [simp]: "committed (xs @ ys) = committed xs @ committed ys"
  by (induction xs rule: committed.induct) simp_all

lemma fetched_append [simp]: "fetched (xs @ ys) = fetched xs @ fetched ys"
  by (induction xs rule: fetched.induct) simp_all

lemma committed_filter [simp]: "committed (filter isMessageEvent evs) = committed evs"
  by (induction evs rule: committed.induct) simp_all

lemma fetched_filter [simp]: "fetched (filter isMessageEvent evs) = fetched evs"
  by (induction evs rule: fetched.induct) simp_all

lemma committed_rounds [simp]: "committed (concat (map messageRound hs)) = map fst hs"
  by (induction hs) (simp_all add: messageRound_def)

lemma fetched_rounds [simp]: "fetched (concat (map messageRound hs)) = map fst hs"
  by (induction hs) (simp_all add: messageRound_def)

text \<open>
  A run that does not end in a panic of the handler is a sequence of rounds, as
  far as its messages go: fetched, handed to the handler, returned from it,
  committed.
\<close>

lemma Consume_loop_rounds:
  assumes "Consume_loop handler ts s = ((r, evs), s')" and "\<forall>p. r \<noteq> Some (Panicked p)"
  shows "filter isMessageEvent evs = concat (map messageRound (handled evs))"
  using assms
proof (induction ts arbitrary: s evs s')
  case Nil
  then show ?case by simp
next
  case (Cons t ts)
  show ?case
  proof (cases "ctxErr t")
    case (Some e)
    with Cons.prems show ?thesis by auto
  next
    case None
    show ?thesis
    proof (cases "fetch t")
      case (Inl err)
      show ?thesis
      proof (cases "errors_Is err Canceled")
        case True
        with Cons.prems None Inl show ?thesis by auto
      next
        case False
        obtain r1 evs1 s1 where rec: "Consume_loop handler ts s = ((r1, evs1), s1)"
          by (metis surj_pair)
        with Cons.prems None Inl False have "r1 = r"
          and evs: "evs = [FetchCalled, ConsumerLog ErrorL ''Failed to fetch message'', Slept]
                          @ evs1"
          by auto
        with Cons.IH [OF rec [unfolded \<open>r1 = r\<close>] Cons.prems(2)] show ?thesis
          by simp
      qed
    next
      case (Inr message)
      obtain h s1 where h: "handler message s = (h, s1)"
        by (metis surj_pair)
      show ?thesis
      proof (cases h)
        case (Panicked p)
        with Cons.prems None Inr h show ?thesis by auto
      next
        case (Returned herr)
        obtain r1 evs1 s2 where rec: "Consume_loop handler ts s1 = ((r1, evs1), s2)"
          by (metis surj_pair)
        with Cons.prems None Inr h Returned have "r1 = r"
          and evs: "evs = [FetchCalled, Fetched message, HandlerCalled message,
                           HandlerReturned message herr]
                       @ (if herr \<noteq> None
                          then [ConsumerLog ErrorL ''Failed to process message''] else [])
                       @ [CommitCalled message]
                       @ (if commit t \<noteq> None
                          then [ConsumerLog ErrorL ''Failed to commit message''] else [])
                       @ evs1"
          by auto
        with Cons.IH [OF rec [unfolded \<open>r1 = r\<close>] Cons.prems(2)] show ?thesis
          by (simp add: messageRound_def)
      qed
    qed
  qed
qed

text \<open>
  C8: every message the loop fetches is handed to the handler once and is
  committed once, right after the handler returns, whatever error (or nil) the
  handler returned; the loop calls the handler a second time for no message.
  In the events of a run, the messages fetched, the messages committed and the
  messages whose handler returned are the same list, and the events about
  messages are one round per message. This holds for every handler, every
  sequence of turns and every run that does not end in a panic of the handler.
\<close>

theorem C8_every_fetched_message_is_committed_once:
  assumes "Consume handler turns s = ((r, evs), s')" and "\<forall>p. r \<noteq> Some (Panicked p)"
  shows "filter isMessageEvent evs = concat (map messageRound (handled evs))
         \<and> committed evs = fetched evs
         \<and> fetched evs = map fst (handled evs)"
proof -
  obtain evs0 where loop: "Consume_loop handler turns s = ((r, evs0), s')"
    and evs: "evs = ConsumerLog InfoL ''Starting Kafka consumer'' # evs0"
    using assms(1) by (auto simp: Consume_def split: prod.splits)
  have rounds: "filter isMessageEvent evs = concat (map messageRound (handled evs))"
    using Consume_loop_rounds [OF loop assms(2)] by (simp add: evs)
  have c: "committed evs = map fst (handled evs)"
    using arg_cong [OF rounds, of committed] by simp
  have f: "fetched evs = map fst (handled evs)"
    using arg_cong [OF rounds, of fetched] by simp
  from rounds c f show ?thesis
    by simp
qed

lemma sample_run:
  "Consume failingHandler sampleTurns () =
     ((Some (Returned None),
       [ConsumerLog InfoL ''Starting Kafka consumer'',
        FetchCalled, Fetched ''m1'', HandlerCalled ''m1'',
        HandlerReturned ''m1'' (Some (New ''failed to process transaction'')),
        ConsumerLog ErrorL ''Failed to process message'', CommitCalled ''m1'',
        FetchCalled, ConsumerLog ErrorL ''Failed to fetch message'', Slept,
        FetchCalled, Fetched ''m2'', HandlerCalled ''m2'',
        HandlerReturned ''m2'' (Some (New ''failed to process transaction'')),
        ConsumerLog ErrorL ''Failed to process message'', CommitCalled ''m2'',
        ConsumerLog ErrorL ''Failed to commit message'',
        FetchCalled]), ())"
  by (simp add: Consume_def failingHandler_def sampleTurns_def)

theorem C8_every_fetched_message_is_committed_once_witness:
  "fst (fst (Consume failingHandler sampleTurns ())) = Some (Returned None) \<and>
   committed (snd (fst (Consume failingHandler sampleTurns ()))) = [''m1'', ''m2''] \<and>
   fetched (snd (fst (Consume failingHandler sampleTurns ()))) = [''m1'', ''m2''] \<and>
   handled (snd (fst (Consume failingHandler sampleTurns ()))) =
     [(''m1'', Some (New ''failed to process transaction'')),
      (''m2'', Some (New ''failed to process transaction''))]"
proof -
  have "\<forall>p. Some (Returned None) \<noteq> Some (Panicked p :: error option outcome)"
    by simp
  from C8_every_fetched_message_is_committed_once [OF sample_run this] show ?thesis
    by (simp add: sample_run)
qed

text \<open>
  C9: when the cancellation of the context ends the loop, \<open>Consume\<close> should
  return nil. It does when the cancellation interrupts \<open>FetchMessage\<close>
  (\<open>cancel_during_fetch_returns_nil\<close> below). It does not when the \<open>select\<close> at
  the top of the loop finds the context cancelled: \<open>Consume\<close> then returns
  \<open>ctx.Err()\<close>, which is \<open>context.Canceled\<close>. Here a message is fetched, handled
  and committed while the context is cancelled, and the next turn returns the
  error.
\<close>

theorem C9_cancel_seen_by_select_returns_error:
  "Consume ackHandler cancelledTurns ()
   = ((Some (Returned (Some Canceled)),
       [ConsumerLog InfoL ''Starting Kafka consumer'',
        FetchCalled, Fetched ''m1'', HandlerCalled ''m1'', HandlerReturned ''m1'' None,
        CommitCalled ''m1'',
        ConsumerLog InfoL ''Consumer context cancelled, stopping...'']), ())"
  by (simp add: Consume_def ackHandler_def cancelledTurns_def)

text \<open>
  The two ways a cancellation ends the loop, for every handler and state: seen
  by the \<open>select\<close>, it is returned as the error of the context; interrupting
  \<open>FetchMessage\<close>, it gives nil.
\<close>

lemma cancel_seen_by_select_returns_ctx_error:
  "Consume handler (\<lparr>ctxErr = Some e, fetch = f, commit = c\<rparr> # ts) s
   = ((Some (Returned (Some e)),
       [ConsumerLog InfoL ''Starting Kafka consumer'',
        ConsumerLog InfoL ''Consumer context cancelled, stopping...'']), s)"
  by (simp add: Consume_def)

lemma cancel_during_fetch_returns_nil:
  "Consume handler (\<lparr>ctxErr = None, fetch = Inl Canceled, commit = c\<rparr> # ts) s
   = ((Some (Returned None), [ConsumerLog InfoL ''Starting Kafka consumer'', FetchCalled]), s)"
  by (simp add: Consume_def)

text \<open>
  A panic of the handler ends \<open>Consume\<close> as a panic, and the message is not
  committed.
\<close>

lemma handler_panic_ends_Consume:
  assumes "handler message s = (Panicked p, s1)"
  shows "Consume handler (\<lparr>ctxErr = None, fetch = Inr message, commit = c\<rparr> # ts) s
   = ((Some (Panicked p),
       [ConsumerLog InfoL ''Starting Kafka consumer'',
        FetchCalled, Fetched message, HandlerCalled message]), s1)"
  using assms by (simp add: Consume_def)

end
